theory Spec2Isabelle
  imports Complex_Main "HOL-Library.Sublist"
begin

section \<open>Configuration (config/settings.py)\<close>

text \<open>
  Python floats are modelled as exact rationals: every comparison and every arithmetic
  step of the scoring code is kept, rounding error of the binary representation is not.
  The class attributes of \<open>Settings\<close> that the scoring and retrieval code reads are the
  fields of a record; \<open>settings\<close> is the global instance with the values of the source.
\<close>

record Settings =
  SIMILARITY_THRESHOLD :: rat
  TOP_K_RETRIEVAL :: nat
  SIMILARITY_WEIGHT :: rat
  AGREEMENT_WEIGHT :: rat

definition settings :: Settings where
  "settings = \<lparr>SIMILARITY_THRESHOLD = 2 / 10, TOP_K_RETRIEVAL = 3,
     SIMILARITY_WEIGHT = 5 / 10, AGREEMENT_WEIGHT = 5 / 10\<rparr>"

section \<open>Exceptions\<close>

text \<open>
  An exception is its class and its message (\<open>str(e)\<close>). The classes are the three
  defined in utils/retry\_utils.py, the built-in ones the code can meet, and
  \<open>OtherError\<close> for every other subclass of \<open>Exception\<close>, with its class name. The
  class is what \<open>isinstance\<close> sees: an instance of a subclass of \<open>ConnectionError\<close> or
  \<open>TimeoutError\<close> has that class here.
\<close>

datatype exn_class =
    RateLimitError | TokenLimitError | ServiceUnavailableError
  | ConnectionError | TimeoutError
  | ZeroDivisionError | IndexError | TypeError | ValidationError | JSONDecodeError
  | OtherError string

record exn =
  cls :: exn_class
  msg :: string

section \<open>Strings\<close>

text \<open>
  Messages and model responses are ASCII strings. \<open>lower\<close> is \<open>str.lower\<close>,
  \<open>str_in sub s\<close> is \<open>sub in s\<close>, \<open>startswith s p\<close> is \<open>s.startswith(p)\<close>.
\<close>

definition lower_char :: "char \<Rightarrow> char" where
  "lower_char c =
     (let n = (of_char c :: nat) in if 65 \<le> n \<and> n \<le> 90 then char_of (n + 32) else c)"

definition lower :: "string \<Rightarrow> string" where
  "lower s = map lower_char s"

fun str_in :: "string \<Rightarrow> string \<Rightarrow> bool" where
  "str_in sub [] = (sub = [])"
| "str_in sub (c # cs) = (prefix sub (c # cs) \<or> str_in sub cs)"

definition startswith :: "string \<Rightarrow> string \<Rightarrow> bool" where
  "startswith s p = prefix p s"

section \<open>Retry utilities (utils/retry\_utils.py)\<close>

definition is_retriable_error :: "exn \<Rightarrow> bool" where
  "is_retriable_error exception =
     (let error_msg = lower (msg exception) in
      if str_in ''rate limit'' error_msg \<or> str_in ''429'' error_msg then True
      else if str_in ''token limit'' error_msg \<or> str_in ''tokens'' error_msg then True
      else if str_in ''503'' error_msg \<or> str_in ''service unavailable'' error_msg then True
      else if str_in ''timeout'' error_msg then True
      else False)"

text \<open>
  The \<open>except\<close> clause of \<open>wrapper\<close>: what is raised in place of the exception \<open>e\<close> of
  the wrapped function. A retriable message is converted to one of the three classes of
  this module, with the same message; the final bare \<open>raise\<close> re-raises \<open>e\<close> itself.
\<close>

definition wrapper_except :: "exn \<Rightarrow> exn" where
  "wrapper_except e =
     (if is_retriable_error e then
        (let error_msg = lower (msg e) in
         if str_in ''rate limit'' error_msg \<or> str_in ''429'' error_msg
           then \<lparr>cls = RateLimitError, msg = msg e\<rparr>
         else if str_in ''token limit'' error_msg \<or> str_in ''tokens'' error_msg
           then \<lparr>cls = TokenLimitError, msg = msg e\<rparr>
         else if str_in ''503'' error_msg \<or> str_in ''service unavailable'' error_msg
           then \<lparr>cls = ServiceUnavailableError, msg = msg e\<rparr>
         else e)
      else e)"

text \<open>
  The messages that the \<open>except\<close> clause converts: those with one of the markers of its
  three branches (the lower-cased message is searched).
\<close>

definition conversion_marker :: "string \<Rightarrow> bool" where
  "conversion_marker m = (let error_msg = lower m in
     str_in ''rate limit'' error_msg \<or> str_in ''429'' error_msg \<or>
     str_in ''token limit'' error_msg \<or> str_in ''tokens'' error_msg \<or>
     str_in ''503'' error_msg \<or> str_in ''service unavailable'' error_msg)"

text \<open>
  A call with effects is a function from the state before to the outcome and the state
  after: \<open>Inl\<close> an exception raised, \<open>Inr\<close> the value returned.
\<close>

type_synonym ('a, 's) call = "'s \<Rightarrow> (exn + 'a) \<times> 's"

definition wrapper :: "('a, 's) call \<Rightarrow> ('a, 's) call" where
  "wrapper func s =
     (case func s of
        (Inr v, s') \<Rightarrow> (Inr v, s')
      | (Inl e, s') \<Rightarrow> (Inl (wrapper_except e), s'))"

text \<open>
  The arguments of the \<open>tenacity.retry\<close> decorator. \<open>retry_if_exception_type\<close> is an
  \<open>isinstance\<close> test against the five listed classes; \<open>stop_after_attempt(3)\<close> holds
  once the attempt number has reached 3; \<open>wait_exponential(multiplier=1, min=1,
  max=10)\<close> after attempt \<open>n\<close> is \<open>max(max(0, min), min(multiplier * 2 ** (n - 1), max))\<close>
  seconds: 1 after the first attempt and 2 after the second, the start of the sequence
  in the docstring of the decorator.
\<close>

definition retry_if_exception_type :: "exn \<Rightarrow> bool" where
  "retry_if_exception_type e =
     (cls e \<in> {RateLimitError, TokenLimitError, ServiceUnavailableError,
                ConnectionError, TimeoutError})"

definition stop_after_attempt :: "nat \<Rightarrow> bool" where
  "stop_after_attempt attempt_number = (attempt_number \<ge> 3)"

definition wait_exponential :: "nat \<Rightarrow> nat" where
  "wait_exponential attempt_number =
     max (max 0 1) (min (1 * 2 ^ (attempt_number - 1)) 10)"

text \<open>
  What a decorated call leaves behind: the outcome, the sleeps made between attempts
  (in seconds, in order), the number of the last attempt, and the state after it.
\<close>

record ('a, 's) run =
  outcome :: "exn + 'a"
  waits :: "nat list"
  attempts :: nat
  final :: 's

text \<open>
  The loop of \<open>tenacity\<close> under \<open>reraise=True\<close>, from attempt \<open>attempt_number\<close> on.
  The function is attempted; a value is returned; an exception that the retry predicate
  rejects is raised as it is; one that it accepts is raised as it is when the stop
  condition holds, and otherwise the loop sleeps and attempts again.
\<close>

function retrying :: "nat \<Rightarrow> ('a, 's) call \<Rightarrow> 's \<Rightarrow> nat list \<Rightarrow> ('a, 's) run" where
  "retrying attempt_number fn s slept =
     (case fn s of
        (Inr v, s') \<Rightarrow>
          \<lparr>outcome = Inr v, waits = slept, attempts = attempt_number, final = s'\<rparr>
      | (Inl e, s') \<Rightarrow>
          if \<not> retry_if_exception_type e
            then \<lparr>outcome = Inl e, waits = slept, attempts = attempt_number, final = s'\<rparr>
          else if stop_after_attempt attempt_number
            then \<lparr>outcome = Inl e, waits = slept, attempts = attempt_number, final = s'\<rparr>
          else retrying (attempt_number + 1) fn s' (slept @ [wait_exponential attempt_number]))"
  by pat_completeness auto
termination
  by (relation "measure (\<lambda>(n, fn, s, slept). 3 - n)") (auto simp: stop_after_attempt_def)

definition retry_on_api_error :: "('a, 's) call \<Rightarrow> 's \<Rightarrow> ('a, 's) run" where
  "retry_on_api_error func s = retrying 1 (wrapper func) s []"

section \<open>External services\<close>

text \<open>
  The vector index, the embedding service and the language model are outside the
  program. Each is a function from the number of calls made to it so far, and the
  arguments of the call, to what the call does: raise, or return. The state of a run
  counts the calls. The services stand for one vector store, the \<open>vector_store\<close>
  argument of the source.
\<close>

record Document =
  page_content :: string
  metadata :: "(string \<times> string) list"

record services =
  MistralAIEmbeddings :: "nat \<Rightarrow> exn + unit"
  similarity_search_with_score :: "nat \<Rightarrow> string \<Rightarrow> nat \<Rightarrow> exn + (Document \<times> rat) list"
  chroma_similarity_search :: "nat \<Rightarrow> string \<Rightarrow> nat \<Rightarrow> exn + Document list"
  llm_invoke :: "nat \<Rightarrow> string \<Rightarrow> exn + string"

record calls =
  embeddings_made :: nat
  searches_made :: nat
  llm_calls :: nat

definition invoke :: "services \<Rightarrow> string \<Rightarrow> (string, calls) call" where
  "invoke sv prompt c = (llm_invoke sv (llm_calls c) prompt, c\<lparr>llm_calls := llm_calls c + 1\<rparr>)"

section \<open>Vector store manager (modules/vector\_store.py)\<close>

definition initialize_embeddings :: "services \<Rightarrow> calls \<Rightarrow> (unit, calls) run" where
  "initialize_embeddings sv =
     retry_on_api_error
       (\<lambda>c. (MistralAIEmbeddings sv (embeddings_made c),
              c\<lparr>embeddings_made := embeddings_made c + 1\<rparr>))"

definition similarity_search ::
  "Settings \<Rightarrow> services \<Rightarrow> string \<Rightarrow> nat option \<Rightarrow> calls \<Rightarrow> ((Document \<times> rat) list, calls) run" where
  "similarity_search cfg sv query k =
     retry_on_api_error
       (\<lambda>c. let k' = (case k of None \<Rightarrow> TOP_K_RETRIEVAL cfg | Some n \<Rightarrow> n) in
             (similarity_search_with_score sv (searches_made c) query k',
              c\<lparr>searches_made := searches_made c + 1\<rparr>))"

section \<open>Answer engine (modules/rag\_engine.py)\<close>

text \<open>
  \<open>sum(xs) / len(xs)\<close> raises \<open>ZeroDivisionError\<close> on the empty list; the model returns
  the exception where HOL's division would return 0.
\<close>

definition division_by_zero :: exn where
  "division_by_zero = \<lparr>cls = ZeroDivisionError, msg = ''division by zero''\<rparr>"

definition mean :: "rat list \<Rightarrow> exn + rat" where
  "mean xs = (if length xs = 0 then Inl division_by_zero
              else Inr (sum_list xs / of_nat (length xs)))"

definition calculate_confidence_score ::
  "Settings \<Rightarrow> rat list \<Rightarrow> string \<Rightarrow> Document list \<Rightarrow> exn + rat \<times> string" where
  "calculate_confidence_score cfg retrieval_scores answer sources =
     (case mean retrieval_scores of
        Inl e \<Rightarrow> Inl e
      | Inr m \<Rightarrow>
          let avg_similarity = 1 - m;
              source_agreement = (if length sources \<ge> 2 then 1 else 7 / 10);
              confidence = SIMILARITY_WEIGHT cfg * avg_similarity
                           + AGREEMENT_WEIGHT cfg * source_agreement;
              category = (if confidence \<ge> 7 / 10 then ''high''
                          else if confidence \<ge> 5 / 10 then ''medium''
                          else ''low'')
          in Inr (confidence, category))"

definition apply_guardrails :: "Settings \<Rightarrow> rat \<Rightarrow> rat list \<Rightarrow> exn + bool" where
  "apply_guardrails cfg confidence retrieval_scores =
     (case mean retrieval_scores of
        Inl e \<Rightarrow> Inl e
      | Inr m \<Rightarrow>
          let avg_retrieval = 1 - m in
          if avg_retrieval < SIMILARITY_THRESHOLD cfg then Inr False
          else if confidence < SIMILARITY_THRESHOLD cfg then Inr False
          else Inr True)"

text \<open>
  \<open>str_nat\<close> is \<open>str\<close> on a non-negative integer, \<open>join\<close> is \<open>sep.join(xs)\<close>,
  \<open>enumerate_from\<close> is \<open>enumerate\<close> with its counter.
\<close>

function str_nat :: "nat \<Rightarrow> string" where
  "str_nat n = (if n < 10 then [char_of (48 + n)]
                else str_nat (n div 10) @ [char_of (48 + n mod 10)])"
  by pat_completeness auto
termination
  by (relation "measure id") auto

fun join :: "string \<Rightarrow> string list \<Rightarrow> string" where
  "join sep [] = []"
| "join sep [x] = x"
| "join sep (x # y # ys) = x @ sep @ join sep (y # ys)"

fun enumerate_from :: "nat \<Rightarrow> 'a list \<Rightarrow> (nat \<times> 'a) list" where
  "enumerate_from i [] = []"
| "enumerate_from i (x # xs) = (i, x) # enumerate_from (i + 1) xs"

definition create_prompt :: "string \<Rightarrow> string \<Rightarrow> string" where
  \<open>create_prompt question context =
     ''You are a helpful AI assistant for a Transportation Management System (TMS). \<newline>'' @
     ''Your task is to answer questions about logistics documents accurately and concisely.\<newline>'' @
     ''\<newline>'' @
     ''IMPORTANT RULES:\<newline>'' @
     ''1. Answer ONLY based on the provided context below\<newline>'' @
     ''2. If the context doesn't contain the information, say "The information is not found in the document"\<newline>'' @
     ''3. Be specific and cite relevant details from the context\<newline>'' @
     ''4. Keep answers concise and factual\<newline>'' @
     ''5. Do not make up or infer information not present in the context\<newline>'' @
     ''\<newline>'' @
     ''Context from document:\<newline>'' @
     context @ ''\<newline>'' @
     ''\<newline>'' @
     ''Question: '' @ question @ ''\<newline>'' @
     ''\<newline>'' @
     ''Answer:''\<close>

text \<open>
  \<open>py_round x n\<close> is \<open>round(x, n)\<close> on exact values: the nearest multiple of
  \<open>10 ** -n\<close>, a tie going to the even one.
\<close>

definition py_round :: "rat \<Rightarrow> nat \<Rightarrow> rat" where
  "py_round x ndigits =
     (let m = 10 ^ ndigits; y = x * m; f = \<lfloor>y\<rfloor>; d = y - of_int f in
      of_int (if d < 1 / 2 then f else if d > 1 / 2 then f + 1
              else if even f then f else f + 1) / m)"

record SourceChunk =
  content :: string
  similarity_score :: rat
  chunk_metadata :: "(string \<times> string) list"

record AnswerResult =
  answer :: string
  confidence_score :: rat
  confidence_category :: string
  sources :: "SourceChunk list"
  passes_guardrails :: bool

definition abstention :: string where
  "abstention = ''I cannot provide a confident answer based on the available context. '' @
     ''The information might not be present in the document, or the retrieved content '' @
     ''has low relevance to your question.''"

text \<open>
  The body of \<open>generate_answer\<close>, one attempt of the decorated method. Its \<open>except\<close>
  clause logs and re-raises, so an exception of the model call or of the scoring is the
  outcome of the attempt.
\<close>

definition generate_answer_body ::
  "Settings \<Rightarrow> services \<Rightarrow> string \<Rightarrow> (Document \<times> rat) list \<Rightarrow> (AnswerResult, calls) call" where
  "generate_answer_body cfg sv question retrieved_docs c =
     (let documents = map fst retrieved_docs;
          scores = map snd retrieved_docs;
          context = join ''\<newline>\<newline>---\<newline>\<newline>''
                      (map (\<lambda>(i, doc). ''[Source '' @ str_nat (i + 1) @ '']:\<newline>'' @ page_content doc)
                           (enumerate_from 0 documents));
          prompt = create_prompt question context
      in case invoke sv prompt c of
           (Inl e, c') \<Rightarrow> (Inl e, c')
         | (Inr generated, c') \<Rightarrow>
             (case calculate_confidence_score cfg scores generated documents of
                Inl e \<Rightarrow> (Inl e, c')
              | Inr (confidence, category) \<Rightarrow>
                  (case apply_guardrails cfg confidence scores of
                     Inl e \<Rightarrow> (Inl e, c')
                   | Inr passes \<Rightarrow>
                       let answer' = (if \<not> passes then abstention else generated);
                           category' = (if \<not> passes then ''low'' else category);
                           srcs = map (\<lambda>(doc, score).
                                     \<lparr>content = page_content doc,
                                      similarity_score = py_round (1 - score) 3,
                                      chunk_metadata = metadata doc\<rparr>) retrieved_docs
                       in (Inr \<lparr>answer = answer',
                                confidence_score = py_round confidence 3,
                                confidence_category = category',
                                sources = srcs,
                                passes_guardrails = passes\<rparr>, c'))))"

definition generate_answer ::
  "Settings \<Rightarrow> services \<Rightarrow> string \<Rightarrow> (Document \<times> rat) list \<Rightarrow> calls \<Rightarrow> (AnswerResult, calls) run" where
  "generate_answer cfg sv question retrieved_docs =
     retry_on_api_error (generate_answer_body cfg sv question retrieved_docs)"

definition no_information :: AnswerResult where
  "no_information =
     \<lparr>answer = ''No relevant information found in the document.'',
      confidence_score = 0,
      confidence_category = ''low'',
      sources = [],
      passes_guardrails = False\<rparr>"

text \<open>
  \<open>ask_question\<close> builds a \<open>VectorStoreManager\<close>, whose constructor initialises the
  embeddings, retrieves, and either returns the fixed result or generates.
\<close>

definition ask_question :: "Settings \<Rightarrow> services \<Rightarrow> string \<Rightarrow> (AnswerResult, calls) call" where
  "ask_question cfg sv question c =
     (let vsm = initialize_embeddings sv c in
      case outcome vsm of
        Inl e \<Rightarrow> (Inl e, final vsm)
      | Inr _ \<Rightarrow>
          (let found = similarity_search cfg sv question (Some (TOP_K_RETRIEVAL cfg)) (final vsm) in
           case outcome found of
             Inl e \<Rightarrow> (Inl e, final found)
           | Inr retrieved_docs \<Rightarrow>
               if retrieved_docs = [] then (Inr no_information, final found)
               else (let result = generate_answer cfg sv question retrieved_docs (final found)
                     in (outcome result, final result))))"

section \<open>Structured extraction (modules/extractor.py, models/schemas.py)\<close>

text \<open>
  \<open>strip\<close> is \<open>str.strip()\<close>: it removes the whitespace of ASCII at both ends.
  \<open>split sep s\<close> is \<open>s.split(sep)\<close> for a non-empty separator (the source splits on
  the fence marker only). \<open>item xs i\<close> is \<open>xs[i]\<close> for \<open>i \<ge> 0\<close>, which raises
  \<open>IndexError\<close> out of range.
\<close>

definition isspace :: "char \<Rightarrow> bool" where
  "isspace c = (let n = (of_char c :: nat) in (9 \<le> n \<and> n \<le> 13) \<or> (28 \<le> n \<and> n \<le> 32))"

definition strip :: "string \<Rightarrow> string" where
  "strip s = rev (dropWhile isspace (rev (dropWhile isspace s)))"

function split_from :: "string \<Rightarrow> string \<Rightarrow> string \<Rightarrow> string list" where
  "split_from sep cur [] = [rev cur]"
| "split_from sep cur (c # cs) =
     (if sep \<noteq> [] \<and> prefix sep (c # cs)
      then rev cur # split_from sep [] (drop (length sep) (c # cs))
      else split_from sep (c # cur) cs)"
  by pat_completeness auto
termination
  by (relation "measure (\<lambda>(sep, cur, s). length s)") auto

definition split :: "string \<Rightarrow> string \<Rightarrow> string list" where
  "split sep s = split_from sep [] s"

definition item :: "'a list \<Rightarrow> nat \<Rightarrow> exn + 'a" where
  "item xs i = (if i < length xs then Inr (xs ! i)
                else Inl \<lparr>cls = IndexError, msg = ''list index out of range''\<rparr>)"

text \<open>
  A value of \<open>json.loads\<close>; a \<open>dict\<close> is an association list, read with \<open>map_of\<close>.
\<close>

datatype json =
    JNull | JBool bool | JInt int | JFloat rat | JString string
  | JArray "json list" | JObject "(string \<times> json) list"

text \<open>
  The two library functions of the extraction path are parameters. \<open>json_loads\<close> is
  \<open>json.loads\<close>: the value of a text, or the exception it raises. \<open>str_validate\<close> is
  what the validation of an \<open>Optional[str]\<close> field makes of a value that is neither
  \<open>None\<close> nor a \<open>str\<close>: a string it coerces the value to, or nothing when it rejects
  the value.
\<close>

record library =
  json_loads :: "string \<Rightarrow> exn + json"
  str_validate :: "json \<Rightarrow> string option"

record ShipmentData =
  shipment_id :: "string option"
  shipper :: "string option"
  consignee :: "string option"
  pickup_datetime :: "string option"
  delivery_datetime :: "string option"
  equipment_type :: "string option"
  mode :: "string option"
  rate :: "string option"
  currency :: "string option"
  weight :: "string option"
  carrier_name :: "string option"

definition field_names :: "string list" where
  "field_names = [''shipment_id'', ''shipper'', ''consignee'', ''pickup_datetime'',
     ''delivery_datetime'', ''equipment_type'', ''mode'', ''rate'', ''currency'', ''weight'',
     ''carrier_name'']"

text \<open>\<open>ShipmentData()\<close>: every field takes its default \<open>None\<close>.\<close>

definition ShipmentData_default :: ShipmentData where
  "ShipmentData_default =
     \<lparr>shipment_id = None, shipper = None, consignee = None, pickup_datetime = None,
      delivery_datetime = None, equipment_type = None, mode = None, rate = None,
      currency = None, weight = None, carrier_name = None\<rparr>"

text \<open>\<open>getattr d name\<close> reads a field by its name; no other name is a field.\<close>

definition getattr :: "ShipmentData \<Rightarrow> string \<Rightarrow> string option" where
  "getattr d name =
     (if name = ''shipment_id'' then shipment_id d
      else if name = ''shipper'' then shipper d
      else if name = ''consignee'' then consignee d
      else if name = ''pickup_datetime'' then pickup_datetime d
      else if name = ''delivery_datetime'' then delivery_datetime d
      else if name = ''equipment_type'' then equipment_type d
      else if name = ''mode'' then mode d
      else if name = ''rate'' then rate d
      else if name = ''currency'' then currency d
      else if name = ''weight'' then weight d
      else if name = ''carrier_name'' then carrier_name d
      else None)"

text \<open>
  The validation of one \<open>Optional[str] = None\<close> field against the keyword arguments:
  a missing key gives the default, \<open>None\<close> and a string are taken as they are.
\<close>

definition validate_field :: "library \<Rightarrow> (string \<times> json) list \<Rightarrow> string \<Rightarrow> string option option" where
  "validate_field lib kwargs name =
     (case map_of kwargs name of
        None \<Rightarrow> Some None
      | Some JNull \<Rightarrow> Some None
      | Some (JString v) \<Rightarrow> Some (Some v)
      | Some other \<Rightarrow> (case str_validate lib other of None \<Rightarrow> None | Some v \<Rightarrow> Some (Some v)))"

text \<open>
  \<open>ShipmentData(**extracted_data)\<close>: \<open>**\<close> raises \<open>TypeError\<close> on a value that is not
  a \<open>dict\<close>; the model raises \<open>ValidationError\<close> when a field rejects its value; keys
  that name no field are ignored.
\<close>

definition ShipmentData_init :: "library \<Rightarrow> json \<Rightarrow> exn + ShipmentData" where
  "ShipmentData_init lib extracted_data =
     (case extracted_data of
        JObject kwargs \<Rightarrow>
          (let field = (\<lambda>name. validate_field lib kwargs name) in
           if list_all (\<lambda>name. field name \<noteq> None) field_names then
             Inr \<lparr>shipment_id = the (field ''shipment_id''),
                  shipper = the (field ''shipper''),
                  consignee = the (field ''consignee''),
                  pickup_datetime = the (field ''pickup_datetime''),
                  delivery_datetime = the (field ''delivery_datetime''),
                  equipment_type = the (field ''equipment_type''),
                  mode = the (field ''mode''),
                  rate = the (field ''rate''),
                  currency = the (field ''currency''),
                  weight = the (field ''weight''),
                  carrier_name = the (field ''carrier_name'')\<rparr>
           else Inl \<lparr>cls = ValidationError, msg = ''validation error for ShipmentData''\<rparr>)
      | _ \<Rightarrow> Inl \<lparr>cls = TypeError, msg = ''argument after ** must be a mapping''\<rparr>)"

definition create_extraction_prompt :: "string \<Rightarrow> string" where
  \<open>create_extraction_prompt document_text =
     ''You are an expert at extracting structured data from logistics documents.\<newline>'' @
     ''\<newline>'' @
     ''Your task is to extract the following shipment information from the provided document text.\<newline>'' @
     ''Return ONLY a JSON object with these exact fields. Use null for any field not found in the document.\<newline>'' @
     ''\<newline>'' @
     ''Required fields:\<newline>'' @
     ''- shipment_id: Shipment or order ID\<newline>'' @
     ''- shipper: Name or company shipping the goods\<newline>'' @
     ''- consignee: Name or company receiving the goods\<newline>'' @
     ''- pickup_datetime: Scheduled pickup date and time\<newline>'' @
     ''- delivery_datetime: Scheduled or expected delivery date and time\<newline>'' @
     ''- equipment_type: Type of equipment (e.g., "53' Dry Van", "Flatbed", "Reefer")\<newline>'' @
     ''- mode: Transportation mode (e.g., "LTL", "FTL", "Parcel")\<newline>'' @
     ''- rate: Transportation rate or cost\<newline>'' @
     ''- currency: Currency for the rate (e.g., "USD", "CAD")\<newline>'' @
     ''- weight: Total weight of shipment\<newline>'' @
     ''- carrier_name: Name of the carrier company\<newline>'' @
     ''\<newline>'' @
     ''IMPORTANT RULES:\<newline>'' @
     ''1. Extract information EXACTLY as it appears in the document\<newline>'' @
     ''2. Return valid JSON format only, no additional text\<newline>'' @
     ''3. Use null for missing fields, not empty strings\<newline>'' @
     ''4. Preserve original formatting for dates, numbers, and names\<newline>'' @
     ''5. Do not make assumptions or infer missing data\<newline>'' @
     ''\<newline>'' @
     ''Document Text:\<newline>'' @
     document_text @ ''\<newline>'' @
     ''\<newline>'' @
     ''JSON Output:''\<close>

definition get_document_context :: "services \<Rightarrow> nat \<Rightarrow> (string, calls) call" where
  "get_document_context sv max_chunks c =
     (case chroma_similarity_search sv (searches_made c)
             ''shipment carrier consignee shipper pickup delivery rate'' max_chunks of
        Inl e \<Rightarrow> (Inl e, c\<lparr>searches_made := searches_made c + 1\<rparr>)
      | Inr results \<Rightarrow>
          (Inr (join ''\<newline>\<newline>'' (map page_content results)),
           c\<lparr>searches_made := searches_made c + 1\<rparr>))"

text \<open>
  Lines 144 to 151 of the source: the text handed to \<open>json.loads\<close>, from the stripped
  content of the response.
\<close>

definition json_text :: "string \<Rightarrow> exn + string" where
  "json_text result_text =
     (if startswith result_text ''```'' then
        (case item (split ''```'' result_text) 1 of
           Inl e \<Rightarrow> Inl e
         | Inr inner \<Rightarrow>
             Inr (strip (if startswith inner ''json'' then drop 4 inner else inner)))
      else Inr (strip result_text))"

text \<open>The \<open>try\<close> block of \<open>extract_shipment_data\<close>.\<close>

definition extract_shipment_data_try ::
  "library \<Rightarrow> services \<Rightarrow> string \<Rightarrow> (ShipmentData, calls) call" where
  "extract_shipment_data_try lib sv document_id c =
     (case get_document_context sv 5 c of
        (Inl e, c') \<Rightarrow> (Inl e, c')
      | (Inr document_text, c') \<Rightarrow>
          (case invoke sv (create_extraction_prompt document_text) c' of
             (Inl e, c'') \<Rightarrow> (Inl e, c'')
           | (Inr response_content, c'') \<Rightarrow>
               (case json_text (strip response_content) of
                  Inl e \<Rightarrow> (Inl e, c'')
                | Inr result_text \<Rightarrow>
                    (case (case json_loads lib result_text of
                             Inl je \<Rightarrow> if cls je = JSONDecodeError then Inr (JObject []) else Inl je
                           | Inr v \<Rightarrow> Inr v) of
                       Inl e \<Rightarrow> (Inl e, c'')
                     | Inr extracted_data \<Rightarrow> (ShipmentData_init lib extracted_data, c'')))))"

text \<open>
  The body of the decorated method: \<open>except Exception\<close> turns every exception of the
  \<open>try\<close> block into the return of \<open>ShipmentData()\<close>.
\<close>

definition extract_shipment_data_body ::
  "library \<Rightarrow> services \<Rightarrow> string \<Rightarrow> (ShipmentData, calls) call" where
  "extract_shipment_data_body lib sv document_id c =
     (case extract_shipment_data_try lib sv document_id c of
        (Inl e, c') \<Rightarrow> (Inr ShipmentData_default, c')
      | (Inr shipment_data, c') \<Rightarrow> (Inr shipment_data, c'))"

definition extract_shipment_data ::
  "library \<Rightarrow> services \<Rightarrow> string \<Rightarrow> calls \<Rightarrow> (ShipmentData, calls) run" where
  "extract_shipment_data lib sv document_id =
     retry_on_api_error (extract_shipment_data_body lib sv document_id)"

section \<open>Example inputs\<close>

text \<open>Concrete documents, services and calls on which the properties below are run.\<close>

definition doc :: "string \<Rightarrow> Document" where
  "doc text = \<lparr>page_content = text, metadata = [(''source'', ''bol.pdf'')]\<rparr>"

text \<open>
  Two operations on a state that counts their calls: one raises the same exception at
  every call, one raises it at its first \<open>k\<close> calls and returns a value afterwards.
\<close>

definition always_raises :: "exn \<Rightarrow> (string, nat) call" where
  "always_raises e n = (Inl e, n + 1)"

definition flaky :: "nat \<Rightarrow> exn \<Rightarrow> string \<Rightarrow> (string, nat) call" where
  "flaky k e v n = (if n < k then Inl e else Inr v, n + 1)"

text \<open>
  Exceptions an operation can raise: a connection failure whose message has no marker, a
  generic exception with a rate-limit message, a generic exception with no marker, and a
  generic exception whose only marker is \<open>timeout\<close>.
\<close>

definition refused :: exn where
  "refused = \<lparr>cls = ConnectionError, msg = ''host unreachable''\<rparr>"

definition too_many :: exn where
  "too_many = \<lparr>cls = OtherError ''Exception'', msg = ''Error code: 429 - Too Many Requests''\<rparr>"

definition bad_request :: exn where
  "bad_request = \<lparr>cls = OtherError ''ValueError'', msg = ''Invalid API key''\<rparr>"

definition timed_out :: exn where
  "timed_out = \<lparr>cls = OtherError ''Exception'', msg = ''Request timeout''\<rparr>"

text \<open>
  A store that answers every query with the nearest \<open>k\<close> of its chunks, behind an
  embedding service that is up and a model that does the same at every call: it
  returns a reply, or raises.
\<close>

definition store_with :: "(Document \<times> rat) list \<Rightarrow> (exn + string) \<Rightarrow> services" where
  "store_with chunks reply =
     \<lparr>MistralAIEmbeddings = (\<lambda>n. Inr ()),
      similarity_search_with_score = (\<lambda>n query k. Inr (take k chunks)),
      chroma_similarity_search = (\<lambda>n query k. Inr (map fst (take k chunks))),
      llm_invoke = (\<lambda>n prompt. reply)\<rparr>"

definition no_calls :: calls where
  "no_calls = \<lparr>embeddings_made = 0, searches_made = 0, llm_calls = 0\<rparr>"

definition three_chunks :: "(Document \<times> rat) list" where
  "three_chunks = [(doc ''Rate: 1200 USD'', 1 / 10), (doc ''Carrier: ACME Freight'', 3 / 10),
                   (doc ''Pickup: 2024-03-01 08:00'', 2 / 10)]"


text \<open>
  Responses of the model: a JSON object with the eleven fields, one with a field and a
  \<open>null\<close>, one whose only field is the empty string, and prose. \<open>example_loads\<close> is
  \<open>json.loads\<close> on these texts: the value of each of the three JSON texts, and the
  \<open>JSONDecodeError\<close> that the prose gets (every other text stands for prose).
  \<open>example_library\<close> pairs it with a validation that coerces nothing. \<open>store_down\<close> is a
  vector index whose every query raises.
\<close>

definition json_object :: string where
  \<open>json_object =
     ''{"shipment_id": "SH-1001", "shipper": "Acme Corp", "consignee": "Globex LLC", '' @
     ''"pickup_datetime": "2024-03-01 08:00", "delivery_datetime": "03/03/2024 5pm", '' @
     ''"equipment_type": "53' Dry Van", "mode": "FTL", "rate": "1,200.00", '' @
     ''"currency": "USD", "weight": "42000 lbs", "carrier_name": "ACME Freight"}''\<close>

definition json_partial :: string where
  \<open>json_partial = ''{"shipper": "Acme Corp", "rate": null}''\<close>

definition json_empty_shipper :: string where
  \<open>json_empty_shipper = ''{"shipper": ""}''\<close>

definition prose :: string where
  "prose = ''I could not find any shipment data in this document.''"

definition example_loads :: "string \<Rightarrow> exn + json" where
  "example_loads s =
     (if s = json_object then
        Inr (JObject [(''shipment_id'', JString ''SH-1001''), (''shipper'', JString ''Acme Corp''),
          (''consignee'', JString ''Globex LLC''),
          (''pickup_datetime'', JString ''2024-03-01 08:00''),
          (''delivery_datetime'', JString ''03/03/2024 5pm''),
          (''equipment_type'', JString ''53' Dry Van''), (''mode'', JString ''FTL''),
          (''rate'', JString ''1,200.00''), (''currency'', JString ''USD''),
          (''weight'', JString ''42000 lbs''), (''carrier_name'', JString ''ACME Freight'')])
      else if s = json_partial then
        Inr (JObject [(''shipper'', JString ''Acme Corp''), (''rate'', JNull)])
      else if s = json_empty_shipper then
        Inr (JObject [(''shipper'', JString [])])
      else Inl \<lparr>cls = JSONDecodeError, msg = ''Expecting value: line 1 column 1 (char 0)''\<rparr>)"

definition example_library :: library where
  "example_library = \<lparr>json_loads = example_loads, str_validate = (\<lambda>v. None)\<rparr>"

definition store_down :: "exn \<Rightarrow> services" where
  "store_down e =
     \<lparr>MistralAIEmbeddings = (\<lambda>n. Inr ()),
      similarity_search_with_score = (\<lambda>n query k. Inl e),
      chroma_similarity_search = (\<lambda>n query k. Inl e),
      llm_invoke = (\<lambda>n prompt. Inr ''{}'')\<rparr>"


section \<open>Properties of the retry wrapper\<close>

declare retrying.simps [simp del]

lemma retrying_value:
  "fn s = (Inr v, s') \<Longrightarrow>
   retrying n fn s slept = \<lparr>outcome = Inr v, waits = slept, attempts = n, final = s'\<rparr>"
  by (simp add: retrying.simps)

lemma retrying_fatal:
  "fn s = (Inl e, s') \<Longrightarrow> \<not> retry_if_exception_type e \<Longrightarrow>
   retrying n fn s slept = \<lparr>outcome = Inl e, waits = slept, attempts = n, final = s'\<rparr>"
  by (simp add: retrying.simps)

lemma retrying_again:
  "fn s = (Inl e, s') \<Longrightarrow> retry_if_exception_type e \<Longrightarrow> n < 3 \<Longrightarrow>
   retrying n fn s slept = retrying (n + 1) fn s' (slept @ [wait_exponential n])"
  by (subst retrying.simps) (simp add: stop_after_attempt_def)

lemma retrying_give_up:
  "fn s = (Inl e, s') \<Longrightarrow> retry_if_exception_type e \<Longrightarrow> 3 \<le> n \<Longrightarrow>
   retrying n fn s slept = \<lparr>outcome = Inl e, waits = slept, attempts = n, final = s'\<rparr>"
  by (simp add: retrying.simps stop_after_attempt_def)

lemma wrapper_value: "func s = (Inr v, s') \<Longrightarrow> wrapper func s = (Inr v, s')"
  by (simp add: wrapper_def)

lemma wrapper_raise: "func s = (Inl e, s') \<Longrightarrow> wrapper func s = (Inl (wrapper_except e), s')"
  by (simp add: wrapper_def)

lemma msg_wrapper_except: "msg (wrapper_except e) = msg e"
  by (simp add: wrapper_except_def Let_def)

lemma wrapper_except_fatal: "\<not> is_retriable_error e \<Longrightarrow> wrapper_except e = e"
  by (simp add: wrapper_except_def)

lemma wrapper_except_converted:
  "conversion_marker (msg e) \<Longrightarrow> cls (wrapper_except e) \<in> {RateLimitError, TokenLimitError, ServiceUnavailableError}"
  by (auto simp add: wrapper_except_def is_retriable_error_def conversion_marker_def Let_def)

lemma wrapper_except_unconverted:
  "\<not> conversion_marker (msg e) \<Longrightarrow> wrapper_except e = e"
  by (auto simp add: wrapper_except_def is_retriable_error_def conversion_marker_def Let_def)

lemma retry_class_kept:
  "retry_if_exception_type e \<Longrightarrow> retry_if_exception_type (wrapper_except e)"
  by (cases "conversion_marker (msg e)")
     (use wrapper_except_converted[of e] in \<open>auto simp: wrapper_except_unconverted retry_if_exception_type_def\<close>)


lemma retrying_rule:
  assumes stop: "\<And>n s slept r s'. fn s = (r, s') \<Longrightarrow>
             P n s slept \<lparr>outcome = r, waits = slept, attempts = n, final = s'\<rparr>"
    and again: "\<And>n s slept e s' R. fn s = (Inl e, s') \<Longrightarrow> retry_if_exception_type e \<Longrightarrow>
             n < 3 \<Longrightarrow> P (n + 1) s' (slept @ [wait_exponential n]) R \<Longrightarrow> P n s slept R"
  shows "P n s slept (retrying n fn s slept)"
proof (induction "3 - n" arbitrary: n s slept)
  case 0
  obtain r s' where f: "fn s = (r, s')" by (cases "fn s")
  have "retrying n fn s slept = \<lparr>outcome = r, waits = slept, attempts = n, final = s'\<rparr>"
    using 0 f by (cases r) (simp_all add: retrying.simps stop_after_attempt_def)
  with stop [OF f] show ?case by simp
next
  case (Suc k)
  obtain r s' where f: "fn s = (r, s')" by (cases "fn s")
  show ?case
  proof (cases "\<exists>e. r = Inl e \<and> retry_if_exception_type e")
    case True
    then obtain e where e: "r = Inl e" "retry_if_exception_type e" by blast
    have n: "n < 3" using Suc.hyps(2) by simp
    have "k = 3 - (n + 1)" using Suc.hyps(2) by simp
    from Suc.hyps(1) [OF this]
    have "P (n + 1) s' (slept @ [wait_exponential n])
            (retrying (n + 1) fn s' (slept @ [wait_exponential n]))" .
    with again f e n have "P n s slept (retrying (n + 1) fn s' (slept @ [wait_exponential n]))"
      by blast
    moreover have "retrying n fn s slept = retrying (n + 1) fn s' (slept @ [wait_exponential n])"
      using f e n by (simp add: retrying_again)
    ultimately show ?thesis by simp
  next
    case False
    have "retrying n fn s slept = \<lparr>outcome = r, waits = slept, attempts = n, final = s'\<rparr>"
      using False f by (cases r) (simp_all add: retrying.simps)
    with stop [OF f] show ?thesis by simp
  qed
qed

lemma attempts_retrying: "n \<le> attempts (retrying n fn s slept)"
  by (rule retrying_rule [where P = "\<lambda>n s slept R. n \<le> attempts R"]) simp_all

lemma waits_retrying: "prefix slept (waits (retrying n fn s slept))"
  by (rule retrying_rule [where P = "\<lambda>n s slept R. prefix slept (waits R)"])
     (auto dest: append_prefixD)


lemma retrying_outcome_raise:
  "outcome (retrying n fn s slept) = Inl e \<Longrightarrow>
   \<exists>s1. fn s1 = (Inl e, final (retrying n fn s slept))"
  by (rule retrying_rule [where P = "\<lambda>n s slept R. outcome R = Inl e \<longrightarrow> (\<exists>s1. fn s1 = (Inl e, final R))", rule_format])
     auto

lemma retrying_preserves:
  fixes fn :: "('a, 's) call" and g :: "'s \<Rightarrow> 'b"
  assumes "\<And>s. g (snd (fn s)) = g s"
  shows "g (final (retrying n fn s slept)) = g s"
proof (rule retrying_rule [where P = "\<lambda>n s slept R. g (final R) = g s"])
  fix n :: nat and s slept r s' assume "fn s = (r, s')"
  with assms [of s] show "g (final \<lparr>outcome = r, waits = slept, attempts = n, final = s'\<rparr>) = g s"
    by simp
next
  fix n :: nat and s slept e s' and R :: "('a, 's) run"
  assume "fn s = (Inl e, s')" "g (final R) = g s'"
  with assms [of s] show "g (final R) = g s" by simp
qed

lemma retrying_first:
  assumes "fn s = (Inl e, s')" and "retry_if_exception_type e"
  shows "retrying 1 fn s slept = retrying 2 fn s' (slept @ [1])"
proof -
  have "retrying 1 fn s slept = retrying (1 + 1) fn s' (slept @ [wait_exponential 1])"
    by (rule retrying_again [of fn s e s' 1 slept]) (use assms in simp_all)
  moreover have "wait_exponential 1 = 1" by (simp add: wait_exponential_def)
  moreover have "(1::nat) + 1 = 2" by simp
  ultimately show ?thesis by (simp only:)
qed

lemma retrying_second:
  assumes "fn s = (Inl e, s')" and "retry_if_exception_type e"
  shows "retrying 2 fn s slept = retrying 3 fn s' (slept @ [2])"
proof -
  have "retrying 2 fn s slept = retrying (2 + 1) fn s' (slept @ [wait_exponential 2])"
    by (rule retrying_again [of fn s e s' 2 slept]) (use assms in simp_all)
  moreover have "wait_exponential 2 = 2" by (simp add: wait_exponential_def)
  moreover have "(2::nat) + 1 = 3" by simp
  ultimately show ?thesis by (simp only:)
qed


lemma wrapper_raise_iff:
  "wrapper func s = (Inl e, s') \<longleftrightarrow> (\<exists>e0. func s = (Inl e0, s') \<and> e = wrapper_except e0)"
  by (auto simp: wrapper_def split: sum.splits prod.splits)


lemma retry_outcome_raise:
  "outcome (retry_on_api_error func s) = Inl e \<Longrightarrow>
   \<exists>s1 e0. func s1 = (Inl e0, final (retry_on_api_error func s)) \<and> e = wrapper_except e0"
  unfolding retry_on_api_error_def
  by (drule retrying_outcome_raise) (auto simp add: wrapper_raise_iff)

lemma retry_preserves:
  fixes func :: "('a, 's) call" and g :: "'s \<Rightarrow> 'b"
  assumes "\<And>s. g (snd (func s)) = g s"
  shows "g (final (retry_on_api_error func s)) = g s"
  unfolding retry_on_api_error_def
proof (rule retrying_preserves)
  fix s show "g (snd (wrapper func s)) = g s"
    using assms [of s] by (auto simp: wrapper_def split: sum.splits prod.splits)
qed

text \<open>
  C4 (as the code has it). A failure is retried when its message holds one of the markers
  that the wrapper converts (\<open>rate limit\<close>, \<open>429\<close>, \<open>token limit\<close>, \<open>tokens\<close>, \<open>503\<close>,
  \<open>service unavailable\<close>, in any letter case), or when its class is one of
  \<open>RateLimitError\<close>, \<open>TokenLimitError\<close>, \<open>ServiceUnavailableError\<close>, \<open>ConnectionError\<close>,
  \<open>TimeoutError\<close>: the wrapper then sleeps one second and makes a second attempt. A failure
  whose message holds none of the markers of \<open>is_retriable_error\<close> and whose class is none
  of the five propagates from the first attempt, unchanged and with no wait.
\<close>

theorem retry_classification:
  assumes first: "func s = (Inl e, s1)"
  shows "(conversion_marker (msg e) \<or> retry_if_exception_type e \<longrightarrow>
            retry_on_api_error func s = retrying 2 (wrapper func) s1 [1] \<and>
            2 \<le> attempts (retry_on_api_error func s) \<and>
            prefix [1] (waits (retry_on_api_error func s))) \<and>
         (\<not> is_retriable_error e \<and> \<not> retry_if_exception_type e \<longrightarrow>
            retry_on_api_error func s =
              \<lparr>outcome = Inl e, waits = [], attempts = 1, final = s1\<rparr>)"
proof (intro conjI impI)
  assume h: "conversion_marker (msg e) \<or> retry_if_exception_type e"
  have r: "retry_if_exception_type (wrapper_except e)"
    using h wrapper_except_converted [of e] retry_class_kept [of e]
    by (auto simp: retry_if_exception_type_def)
  have w: "wrapper func s = (Inl (wrapper_except e), s1)"
    using first by (rule wrapper_raise)
  show eq: "retry_on_api_error func s = retrying 2 (wrapper func) s1 [1]"
    unfolding retry_on_api_error_def
    using retrying_first [of "wrapper func" s "wrapper_except e" s1 "[]"] w r
    by simp
  show "2 \<le> attempts (retry_on_api_error func s)"
    unfolding eq by (rule attempts_retrying)
  show "prefix [1] (waits (retry_on_api_error func s))"
    unfolding eq by (rule waits_retrying)
next
  assume h: "\<not> is_retriable_error e \<and> \<not> retry_if_exception_type e"
  then have "wrapper func s = (Inl e, s1)"
    using first by (simp add: wrapper_raise wrapper_except_fatal)
  with h show "retry_on_api_error func s =
      \<lparr>outcome = Inl e, waits = [], attempts = 1, final = s1\<rparr>"
    unfolding retry_on_api_error_def by (simp add: retrying_fatal)
qed

theorem retry_classification_witness:
  "always_raises too_many 0 = (Inl too_many, 1) \<and> conversion_marker (msg too_many) \<and>
   2 \<le> attempts (retry_on_api_error (always_raises too_many) 0) \<and>
   always_raises bad_request 0 = (Inl bad_request, 1) \<and>
   \<not> is_retriable_error bad_request \<and> \<not> retry_if_exception_type bad_request \<and>
   retry_on_api_error (always_raises bad_request) 0 =
     \<lparr>outcome = Inl bad_request, waits = [], attempts = 1, final = 1\<rparr>"
proof -
  have a: "always_raises too_many 0 = (Inl too_many, 1)" by (simp add: always_raises_def)
  have b: "conversion_marker (msg too_many)" by code_simp
  have c: "always_raises bad_request 0 = (Inl bad_request, 1)" by (simp add: always_raises_def)
  have d: "\<not> is_retriable_error bad_request \<and> \<not> retry_if_exception_type bad_request"
    by code_simp
  show ?thesis
    using retry_classification [of "always_raises too_many" 0 too_many 1]
      retry_classification [of "always_raises bad_request" 0 bad_request 1] a b c d by blast
qed

text \<open>
  C4 as stated fails: a \<open>ConnectionError\<close> whose message holds no marker is retried to
  the third attempt, with waits of 1 and 2 seconds.
\<close>

theorem retry_classification_counterexample:
  "\<not> is_retriable_error refused \<and> \<not> str_in ''connection'' (lower (msg refused)) \<and>
   retry_on_api_error (always_raises refused) 0 =
     \<lparr>outcome = Inl refused, waits = [1, 2], attempts = 3, final = 3\<rparr>"
  by code_simp

text \<open>
  The \<open>timeout\<close> marker: \<open>is_retriable_error\<close> accepts the message, the \<open>except\<close> clause
  has no branch for it, and a generic exception with it is raised from the first attempt.
\<close>

lemma timeout_marker_not_retried:
  "is_retriable_error timed_out \<and>
   retry_on_api_error (always_raises timed_out) 0 =
     \<lparr>outcome = Inl timed_out, waits = [], attempts = 1, final = 1\<rparr>"
  by code_simp

text \<open>
  C5 (as the code has it). Let the first two attempts fail with exceptions that the
  wrapper retries (their class, after the conversion of the \<open>except\<close> clause, is one of
  the five). If the third attempt returns, the wrapper returns its value after exactly
  two waits, of 1 and 2 seconds. If the third attempt fails in the same way, there is no
  fourth attempt and no third wait, and the caller receives the last exception with its
  message unchanged; its class is unchanged unless the message holds a converted marker,
  and is then \<open>RateLimitError\<close>, \<open>TokenLimitError\<close> or \<open>ServiceUnavailableError\<close>.
\<close>

theorem retry_policy:
  assumes a1: "func s0 = (Inl e1, s1)" and r1: "retry_if_exception_type (wrapper_except e1)"
    and a2: "func s1 = (Inl e2, s2)" and r2: "retry_if_exception_type (wrapper_except e2)"
  shows "(func s2 = (Inr v, s3) \<longrightarrow>
            retry_on_api_error func s0 =
              \<lparr>outcome = Inr v, waits = [1, 2], attempts = 3, final = s3\<rparr>) \<and>
         (func s2 = (Inl e3, s3) \<and> retry_if_exception_type (wrapper_except e3) \<longrightarrow>
            retry_on_api_error func s0 =
              \<lparr>outcome = Inl (wrapper_except e3), waits = [1, 2], attempts = 3, final = s3\<rparr> \<and>
            msg (wrapper_except e3) = msg e3 \<and>
            (\<not> conversion_marker (msg e3) \<longrightarrow> wrapper_except e3 = e3) \<and>
            (conversion_marker (msg e3) \<longrightarrow>
               cls (wrapper_except e3) \<in> {RateLimitError, TokenLimitError, ServiceUnavailableError}))"
proof -
  have step1: "retry_on_api_error func s0 = retrying 2 (wrapper func) s1 [1]"
    unfolding retry_on_api_error_def
    using retrying_first [of "wrapper func" s0 "wrapper_except e1" s1 "[]"] a1 r1
    by (simp add: wrapper_raise)
  have step2: "retrying 2 (wrapper func) s1 [1] = retrying 3 (wrapper func) s2 [1, 2]"
    using retrying_second [of "wrapper func" s1 "wrapper_except e2" s2 "[1]"] a2 r2
    by (simp add: wrapper_raise)
  show ?thesis
  proof (intro conjI impI)
    assume "func s2 = (Inr v, s3)"
    then have "wrapper func s2 = (Inr v, s3)" by (rule wrapper_value)
    then show "retry_on_api_error func s0 =
        \<lparr>outcome = Inr v, waits = [1, 2], attempts = 3, final = s3\<rparr>"
      unfolding step1 step2 by (simp add: retrying_value)
  next
    assume h: "func s2 = (Inl e3, s3) \<and> retry_if_exception_type (wrapper_except e3)"
    then have "wrapper func s2 = (Inl (wrapper_except e3), s3)" by (simp add: wrapper_raise)
    then show "retry_on_api_error func s0 =
        \<lparr>outcome = Inl (wrapper_except e3), waits = [1, 2], attempts = 3, final = s3\<rparr>"
      unfolding step1 step2 using h by (simp add: retrying_give_up)
  next
    show "msg (wrapper_except e3) = msg e3" by (rule msg_wrapper_except)
  next
    assume "\<not> conversion_marker (msg e3)"
    then show "wrapper_except e3 = e3" by (rule wrapper_except_unconverted)
  next
    assume "conversion_marker (msg e3)"
    then show "cls (wrapper_except e3) \<in> {RateLimitError, TokenLimitError, ServiceUnavailableError}"
      by (rule wrapper_except_converted)
  qed
qed

theorem retry_policy_witness:
  "flaky 2 too_many ''pong'' 0 = (Inl too_many, 1) \<and>
   retry_if_exception_type (wrapper_except too_many) \<and>
   flaky 2 too_many ''pong'' 1 = (Inl too_many, 2) \<and>
   flaky 2 too_many ''pong'' 2 = (Inr ''pong'', 3) \<and>
   retry_on_api_error (flaky 2 too_many ''pong'') 0 =
     \<lparr>outcome = Inr ''pong'', waits = [1, 2], attempts = 3, final = 3\<rparr> \<and>
   always_raises refused 2 = (Inl refused, 3) \<and>
   retry_if_exception_type (wrapper_except refused) \<and>
   retry_on_api_error (always_raises refused) 0 =
     \<lparr>outcome = Inl refused, waits = [1, 2], attempts = 3, final = 3\<rparr>"
proof -
  have a: "flaky 2 too_many ''pong'' 0 = (Inl too_many, 1)"
    "flaky 2 too_many ''pong'' 1 = (Inl too_many, 2)"
    "flaky 2 too_many ''pong'' 2 = (Inr ''pong'', 3)" by (simp_all add: flaky_def)
  have r: "retry_if_exception_type (wrapper_except too_many)" by code_simp
  have b: "always_raises refused 0 = (Inl refused, 1)"
    "always_raises refused 1 = (Inl refused, 2)"
    "always_raises refused 2 = (Inl refused, 3)" by (simp_all add: always_raises_def)
  have q: "retry_if_exception_type (wrapper_except refused)" "wrapper_except refused = refused"
    by code_simp+
  show ?thesis
    using retry_policy [of "flaky 2 too_many ''pong''" 0 too_many 1 too_many 2 "''pong''" 3]
      retry_policy [of "always_raises refused" 0 refused 1 refused 2 "''x''" 3 refused] a b r q
    by simp
qed

text \<open>
  C5 as stated fails: an operation that raises a generic exception with a rate-limit
  message three times leaves the caller with a \<open>RateLimitError\<close>, not with the class
  that the operation raised.
\<close>

theorem retry_policy_counterexample:
  "retry_on_api_error (always_raises too_many) 0 =
     \<lparr>outcome = Inl \<lparr>cls = RateLimitError, msg = ''Error code: 429 - Too Many Requests''\<rparr>,
      waits = [1, 2], attempts = 3, final = 3\<rparr> \<and>
   cls too_many \<noteq> RateLimitError"
  by code_simp

section \<open>Properties of the scoring\<close>

lemma mean_nonempty: "xs \<noteq> [] \<Longrightarrow> mean xs = Inr (sum_list xs / of_nat (length xs))"
  by (simp add: mean_def)

declare str_nat.simps [simp del]

lemma guardrails_nonempty:
  "scores \<noteq> [] \<Longrightarrow>
   apply_guardrails cfg confidence scores =
     Inr (\<not> (1 - sum_list scores / of_nat (length scores) < SIMILARITY_THRESHOLD cfg \<or>
              confidence < SIMILARITY_THRESHOLD cfg))"
  by (simp add: apply_guardrails_def mean_nonempty Let_def)

lemma confidence_nonempty:
  "scores \<noteq> [] \<Longrightarrow>
   calculate_confidence_score cfg scores generated srcs =
     (let confidence = SIMILARITY_WEIGHT cfg * (1 - sum_list scores / of_nat (length scores)) +
                       AGREEMENT_WEIGHT cfg * (if 2 \<le> length srcs then 1 else 7 / 10)
      in Inr (confidence, if 7 / 10 \<le> confidence then ''high''
                          else if 5 / 10 \<le> confidence then ''medium'' else ''low''))"
  by (simp add: calculate_confidence_score_def mean_nonempty Let_def)

text \<open>
  C3. For every confidence score \<open>c\<close> that \<open>calculate_confidence_score\<close> computes (it
  computes one for every non-empty list of distances), the category returned with it is
  \<open>high\<close> if \<open>c \<ge> 0.7\<close>, \<open>medium\<close> if \<open>0.5 \<le> c < 0.7\<close> and \<open>low\<close> if \<open>c < 0.5\<close>; the
  lower bounds are inclusive, so exactly 0.7 is \<open>high\<close> and exactly 0.5 is \<open>medium\<close>.
\<close>

theorem category_thresholds:
  assumes "scores \<noteq> []"
  shows "\<exists>c cat. calculate_confidence_score cfg scores generated srcs = Inr (c, cat) \<and>
     (c \<ge> 7 / 10 \<longrightarrow> cat = ''high'') \<and>
     (5 / 10 \<le> c \<and> c < 7 / 10 \<longrightarrow> cat = ''medium'') \<and>
     (c < 5 / 10 \<longrightarrow> cat = ''low'')"
proof -
  obtain m where m: "mean scores = Inr m"
    using assms by (simp add: mean_nonempty)
  define c where "c = SIMILARITY_WEIGHT cfg * (1 - m) +
     AGREEMENT_WEIGHT cfg * (if length srcs \<ge> 2 then 1 else 7 / 10)"
  define cat where
    "cat = (if c \<ge> 7 / 10 then ''high'' else if c \<ge> 5 / 10 then ''medium'' else ''low'')"
  have "calculate_confidence_score cfg scores generated srcs = Inr (c, cat)"
    by (simp add: calculate_confidence_score_def m Let_def c_def cat_def)
  moreover have "c \<ge> 7 / 10 \<longrightarrow> cat = ''high''"
    by (simp add: cat_def)
  moreover have "5 / 10 \<le> c \<and> c < 7 / 10 \<longrightarrow> cat = ''medium''"
    by (simp add: cat_def)
  moreover have "c < 5 / 10 \<longrightarrow> cat = ''low''"
    by (simp add: cat_def)
  ultimately show ?thesis by blast
qed

text \<open>
  The two boundaries, reached with the default weights: two chunks at distance 0.6 score
  exactly 0.7, two chunks at distance 1 score exactly 0.5.
\<close>

theorem category_thresholds_witness:
  "[6 / 10, 6 / 10] \<noteq> ([] :: rat list) \<and>
   calculate_confidence_score settings [6 / 10, 6 / 10] ''ok'' [doc ''a'', doc ''b'']
     = Inr (7 / 10, ''high'') \<and>
   calculate_confidence_score settings [1, 1] ''ok'' [doc ''a'', doc ''b'']
     = Inr (5 / 10, ''medium'')"
  using category_thresholds [of "[6 / 10, 6 / 10]" settings "''ok''" "[doc ''a'', doc ''b'']"]
    category_thresholds [of "[1, 1]" settings "''ok''" "[doc ''a'', doc ''b'']"]
  by (simp add: calculate_confidence_score_def mean_def settings_def Let_def)



section \<open>Properties of the answer pipeline\<close>

lemma body_shape:
  "\<exists>prompt. generate_answer_body cfg sv question retrieved_docs c =
     (case llm_invoke sv (llm_calls c) prompt of
        Inl e \<Rightarrow> (Inl e, c\<lparr>llm_calls := llm_calls c + 1\<rparr>)
      | Inr generated \<Rightarrow>
          (case calculate_confidence_score cfg (map snd retrieved_docs) generated
                  (map fst retrieved_docs) of
             Inl e \<Rightarrow> (Inl e, c\<lparr>llm_calls := llm_calls c + 1\<rparr>)
           | Inr (confidence, category) \<Rightarrow>
               (case apply_guardrails cfg confidence (map snd retrieved_docs) of
                  Inl e \<Rightarrow> (Inl e, c\<lparr>llm_calls := llm_calls c + 1\<rparr>)
                | Inr passes \<Rightarrow>
                    (Inr \<lparr>answer = (if \<not> passes then abstention else generated),
                          confidence_score = py_round confidence 3,
                          confidence_category = (if \<not> passes then ''low'' else category),
                          sources = map (\<lambda>(doc, score).
                                     \<lparr>content = page_content doc,
                                      similarity_score = py_round (1 - score) 3,
                                      chunk_metadata = metadata doc\<rparr>) retrieved_docs,
                          passes_guardrails = passes\<rparr>,
                     c\<lparr>llm_calls := llm_calls c + 1\<rparr>))))"
  by (rule exI [where x = "create_prompt question
          (join ''\<newline>\<newline>---\<newline>\<newline>''
             (map (\<lambda>(i, doc). ''[Source '' @ str_nat (i + 1) @ '']:\<newline>'' @ page_content doc)
                  (enumerate_from 0 (map fst retrieved_docs))))"])
     (simp add: generate_answer_body_def invoke_def Let_def split: sum.splits prod.splits)


lemma body_raise:
  assumes ne: "retrieved_docs \<noteq> []"
    and run: "generate_answer_body cfg sv question retrieved_docs c = (Inl e, c')"
  shows "\<exists>prompt. llm_invoke sv (llm_calls c) prompt = Inl e"
proof -
  have sc: "map snd retrieved_docs \<noteq> []" using ne by simp
  obtain prompt where shape: "generate_answer_body cfg sv question retrieved_docs c =
     (case llm_invoke sv (llm_calls c) prompt of
        Inl e \<Rightarrow> (Inl e, c\<lparr>llm_calls := llm_calls c + 1\<rparr>)
      | Inr generated \<Rightarrow>
          (case calculate_confidence_score cfg (map snd retrieved_docs) generated
                  (map fst retrieved_docs) of
             Inl e \<Rightarrow> (Inl e, c\<lparr>llm_calls := llm_calls c + 1\<rparr>)
           | Inr (confidence, category) \<Rightarrow>
               (case apply_guardrails cfg confidence (map snd retrieved_docs) of
                  Inl e \<Rightarrow> (Inl e, c\<lparr>llm_calls := llm_calls c + 1\<rparr>)
                | Inr passes \<Rightarrow>
                    (Inr \<lparr>answer = (if \<not> passes then abstention else generated),
                          confidence_score = py_round confidence 3,
                          confidence_category = (if \<not> passes then ''low'' else category),
                          sources = map (\<lambda>(doc, score).
                                     \<lparr>content = page_content doc,
                                      similarity_score = py_round (1 - score) 3,
                                      chunk_metadata = metadata doc\<rparr>) retrieved_docs,
                          passes_guardrails = passes\<rparr>,
                     c\<lparr>llm_calls := llm_calls c + 1\<rparr>))))"
    using body_shape by blast
  show ?thesis
  proof (cases "llm_invoke sv (llm_calls c) prompt")
    case (Inl e')
    with run shape show ?thesis by auto
  next
    case (Inr generated)
    obtain confidence category where
      cc: "calculate_confidence_score cfg (map snd retrieved_docs) generated (map fst retrieved_docs)
          = Inr (confidence, category)"
      using confidence_nonempty [OF sc, of cfg generated "map fst retrieved_docs"]
      by (auto simp: Let_def)
    from run shape Inr cc guardrails_nonempty [OF sc, of cfg confidence]
    show ?thesis by simp
  qed
qed

lemma llm_calls_initialize_embeddings:
  "llm_calls (final (initialize_embeddings sv c)) = llm_calls c"
  unfolding initialize_embeddings_def by (rule retry_preserves) simp

lemma llm_calls_similarity_search:
  "llm_calls (final (similarity_search cfg sv query k c)) = llm_calls c"
  unfolding similarity_search_def by (rule retry_preserves) (simp add: Let_def)

lemma initialize_embeddings_raise:
  "outcome (initialize_embeddings sv c) = Inl e \<Longrightarrow>
   \<exists>e0 n. MistralAIEmbeddings sv n = Inl e0 \<and> e = wrapper_except e0"
  unfolding initialize_embeddings_def
  by (drule retry_outcome_raise) auto

lemma similarity_search_raise:
  "outcome (similarity_search cfg sv query k c) = Inl e \<Longrightarrow>
   \<exists>e0 n k'. similarity_search_with_score sv n query k' = Inl e0 \<and> e = wrapper_except e0"
  unfolding similarity_search_def
  by (drule retry_outcome_raise) (auto simp: Let_def)

lemma generate_answer_raise:
  assumes "retrieved_docs \<noteq> []"
    and "outcome (generate_answer cfg sv question retrieved_docs c) = Inl e"
  shows "\<exists>e0 n prompt. llm_invoke sv n prompt = Inl e0 \<and> e = wrapper_except e0"
proof -
  from assms(2) obtain s1 e0 s2 where
    "generate_answer_body cfg sv question retrieved_docs s1 = (Inl e0, s2)" "e = wrapper_except e0"
    unfolding generate_answer_def by (blast dest: retry_outcome_raise)
  with body_raise [OF assms(1)] show ?thesis by blast
qed




text \<open>
  C6. If retrieval returns no chunk, \<open>ask_question\<close> returns the fixed no-information
  message with confidence score 0.0, category \<open>low\<close>, no sources and
  \<open>passes_guardrails\<close> false; the model is not invoked, and the result does not
  depend on the question.
\<close>

theorem no_chunks:
  assumes init: "outcome (initialize_embeddings sv c) = Inr ()"
    and found: "outcome (similarity_search cfg sv question (Some (TOP_K_RETRIEVAL cfg))
                  (final (initialize_embeddings sv c))) = Inr []"
  shows "fst (ask_question cfg sv question c) =
           Inr \<lparr>answer = ''No relevant information found in the document.'',
                confidence_score = 0, confidence_category = ''low'', sources = [],
                passes_guardrails = False\<rparr> \<and>
         llm_calls (snd (ask_question cfg sv question c)) = llm_calls c"
  using init found
  by (simp add: ask_question_def Let_def no_information_def
        llm_calls_similarity_search llm_calls_initialize_embeddings)

theorem no_chunks_witness:
  "outcome (initialize_embeddings (store_with [] (Inr ''The rate is 1200 USD.'')) no_calls)
     = Inr () \<and>
   outcome (similarity_search settings (store_with [] (Inr ''The rate is 1200 USD.''))
      ''What is the rate?'' (Some (TOP_K_RETRIEVAL settings))
      (final (initialize_embeddings (store_with [] (Inr ''The rate is 1200 USD.'')) no_calls)))
     = Inr [] \<and>
   fst (ask_question settings (store_with [] (Inr ''The rate is 1200 USD.''))
          ''What is the rate?'' no_calls) = Inr no_information \<and>
   llm_calls (snd (ask_question settings (store_with [] (Inr ''The rate is 1200 USD.''))
          ''What is the rate?'' no_calls)) = 0"
proof -
  let ?empty = "store_with [] (Inr ''The rate is 1200 USD.'')"
  have init: "outcome (initialize_embeddings ?empty no_calls) = Inr ()" by code_simp
  have found: "outcome (similarity_search settings ?empty ''What is the rate?''
      (Some (TOP_K_RETRIEVAL settings)) (final (initialize_embeddings ?empty no_calls)))
      = Inr []" by code_simp
  have zero: "llm_calls no_calls = 0" by code_simp
  show ?thesis
    using no_chunks [OF init found] init found zero by (simp add: no_information_def)
qed

text \<open>
  C10. The two divisions by the number of retrieved distances do not fail on a
  non-empty list, and \<open>ask_question\<close> reaches them with a non-empty list only: every
  exception that leaves \<open>ask_question\<close> is one that the embedding service, the vector
  index or the model raised (as the retry wrapper passes it on), never the division's.
\<close>

theorem division_unreachable:
  "(scores \<noteq> [] \<longrightarrow>
      (\<exists>confidence category.
          calculate_confidence_score cfg scores generated srcs = Inr (confidence, category)) \<and>
      (\<exists>passes. apply_guardrails cfg conf scores = Inr passes)) \<and>
   (fst (ask_question cfg sv question c) = Inl e \<longrightarrow>
      (\<exists>e0. e = wrapper_except e0 \<and>
         ((\<exists>n. MistralAIEmbeddings sv n = Inl e0) \<or>
          (\<exists>n k. similarity_search_with_score sv n question k = Inl e0) \<or>
          (\<exists>n prompt. llm_invoke sv n prompt = Inl e0))))"
proof (intro conjI impI)
  assume "scores \<noteq> []"
  then show "\<exists>confidence category.
      calculate_confidence_score cfg scores generated srcs = Inr (confidence, category)"
    by (simp add: confidence_nonempty Let_def)
next
  assume "scores \<noteq> []"
  then show "\<exists>passes. apply_guardrails cfg conf scores = Inr passes"
    by (simp add: guardrails_nonempty)
next
  assume raised: "fst (ask_question cfg sv question c) = Inl e"
  let ?vsm = "initialize_embeddings sv c"
  let ?found = "similarity_search cfg sv question (Some (TOP_K_RETRIEVAL cfg)) (final ?vsm)"
  show "\<exists>e0. e = wrapper_except e0 \<and>
         ((\<exists>n. MistralAIEmbeddings sv n = Inl e0) \<or>
          (\<exists>n k. similarity_search_with_score sv n question k = Inl e0) \<or>
          (\<exists>n prompt. llm_invoke sv n prompt = Inl e0))"
  proof (cases "outcome ?vsm")
    case (Inl e1)
    with raised have "e = e1" by (simp add: ask_question_def Let_def)
    with Inl initialize_embeddings_raise [of sv c e] show ?thesis by blast
  next
    case (Inr u)
    show ?thesis
    proof (cases "outcome ?found")
      case (Inl e1)
      with raised Inr have "e = e1" by (simp add: ask_question_def Let_def)
      with Inl similarity_search_raise [of cfg sv question _ _ e] show ?thesis by blast
    next
      case found: (Inr retrieved_docs)
      with raised Inr have ne: "retrieved_docs \<noteq> []"
        and "outcome (generate_answer cfg sv question retrieved_docs (final ?found)) = Inl e"
        by (auto simp add: ask_question_def Let_def split: if_splits)
      from generate_answer_raise [OF this] show ?thesis by blast
    qed
  qed
qed

theorem division_unreachable_witness:
  "[95 / 100] \<noteq> ([] :: rat list) \<and>
   fst (ask_question settings (store_with three_chunks (Inl bad_request))
          ''What is the rate?'' no_calls) = Inl bad_request \<and>
   (\<exists>n prompt. llm_invoke (store_with three_chunks (Inl bad_request)) n prompt = Inl bad_request)"
proof -
  let ?down = "store_with three_chunks (Inl bad_request)"
  have raised: "fst (ask_question settings ?down ''What is the rate?'' no_calls) = Inl bad_request"
    by code_simp
  have "llm_invoke ?down 0 ''What is the rate?'' = Inl bad_request" by code_simp
  then have llm: "\<exists>n prompt. llm_invoke ?down n prompt = Inl bad_request" by blast
  show ?thesis
    using division_unreachable [of "[95 / 100]" settings "''ok''" "[doc ''a'']" "375 / 1000"
        ?down "''What is the rate?''" no_calls bad_request] raised llm
    by simp
qed

text \<open>
  Called with no chunk, as \<open>ask_question\<close> never calls it, the body of
  \<open>generate_answer\<close> does raise the division's exception once the model has answered.
\<close>

lemma division_without_chunks:
  "llm_invoke sv (llm_calls c) (create_prompt question []) = Inr generated \<Longrightarrow>
   fst (generate_answer_body cfg sv question [] c) = Inl division_by_zero"
  by (simp add: generate_answer_body_def invoke_def Let_def calculate_confidence_score_def mean_def)

section \<open>Properties of the extraction\<close>

lemma retry_value:
  "func s = (Inr v, s') \<Longrightarrow>
   retry_on_api_error func s = \<lparr>outcome = Inr v, waits = [], attempts = 1, final = s'\<rparr>"
  unfolding retry_on_api_error_def by (simp add: retrying_value wrapper_value)




lemma dropWhile_idem: "dropWhile P (dropWhile P xs) = dropWhile P xs"
  by (induction xs) auto

lemma last_dropWhile: "dropWhile P xs \<noteq> [] \<Longrightarrow> last (dropWhile P xs) = last xs"
  by (induction xs) auto

lemma strip_strip: "strip (strip s) = strip s"
proof -
  let ?t = "dropWhile isspace (rev (dropWhile isspace s))"
  show ?thesis
  proof (cases "?t = []")
    case True
    have "strip s = []" unfolding strip_def True by simp
    moreover have "strip [] = []" by (simp add: strip_def)
    ultimately show ?thesis by simp
  next
    case False
    then have n2: "dropWhile isspace s \<noteq> []" by (cases "dropWhile isspace s") auto
    have "last ?t = last (rev (dropWhile isspace s))"
      using False by (rule last_dropWhile)
    also have "\<dots> = hd (dropWhile isspace s)" using n2 by (simp add: last_rev)
    finally have "\<not> isspace (last ?t)" using hd_dropWhile [OF n2] by simp
    then have "\<not> isspace (hd (rev ?t))" using False by (simp add: hd_rev)
    then have "dropWhile isspace (rev ?t) = rev ?t"
      using False by (cases "rev ?t") auto
    moreover have "dropWhile isspace ?t = ?t" by (rule dropWhile_idem)
    ultimately show ?thesis by (simp add: strip_def)
  qed
qed

text \<open>
  A response that does not open with a fence goes to \<open>json.loads\<close> as it is, stripped of
  the whitespace around it.
\<close>

lemma json_text_plain:
  "\<not> startswith (strip response) ''```'' \<Longrightarrow> json_text (strip response) = Inr (strip response)"
  by (simp add: json_text_def strip_strip)

lemma try_shape:
  "extract_shipment_data_try lib sv document_id c =
     (case chroma_similarity_search sv (searches_made c)
             ''shipment carrier consignee shipper pickup delivery rate'' 5 of
        Inl e \<Rightarrow> (Inl e, c\<lparr>searches_made := searches_made c + 1\<rparr>)
      | Inr results \<Rightarrow>
          (case llm_invoke sv (llm_calls c)
                  (create_extraction_prompt (join ''\<newline>\<newline>'' (map page_content results))) of
             Inl e \<Rightarrow> (Inl e, c\<lparr>searches_made := searches_made c + 1,
                                 llm_calls := llm_calls c + 1\<rparr>)
           | Inr response \<Rightarrow>
               (case json_text (strip response) of
                  Inl e \<Rightarrow> (Inl e, c\<lparr>searches_made := searches_made c + 1,
                                      llm_calls := llm_calls c + 1\<rparr>)
                | Inr payload \<Rightarrow>
                    (case json_loads lib payload of
                       Inl je \<Rightarrow>
                         (if cls je = JSONDecodeError then ShipmentData_init lib (JObject [])
                          else Inl je,
                          c\<lparr>searches_made := searches_made c + 1, llm_calls := llm_calls c + 1\<rparr>)
                     | Inr v \<Rightarrow>
                         (ShipmentData_init lib v,
                          c\<lparr>searches_made := searches_made c + 1,
                            llm_calls := llm_calls c + 1\<rparr>)))))"
  by (simp add: extract_shipment_data_try_def get_document_context_def invoke_def
        split: sum.splits prod.splits)

lemma init_empty: "ShipmentData_init lib (JObject []) = Inr ShipmentData_default"
  by (simp add: ShipmentData_init_def validate_field_def field_names_def ShipmentData_default_def)

lemma body_returns:
  "extract_shipment_data_body lib sv document_id c =
     (Inr (case fst (extract_shipment_data_try lib sv document_id c) of
             Inl e \<Rightarrow> ShipmentData_default | Inr d \<Rightarrow> d),
      snd (extract_shipment_data_try lib sv document_id c))"
  by (simp add: extract_shipment_data_body_def split: sum.splits prod.splits)

lemma extract_run:
  "extract_shipment_data lib sv document_id c =
     \<lparr>outcome = Inr (case fst (extract_shipment_data_try lib sv document_id c) of
                       Inl e \<Rightarrow> ShipmentData_default | Inr d \<Rightarrow> d),
      waits = [], attempts = 1,
      final = snd (extract_shipment_data_try lib sv document_id c)\<rparr>"
  unfolding extract_shipment_data_def by (rule retry_value) (rule body_returns)

text \<open>
  The body catches every exception, so the retry decorator around it never sees one: the
  method makes one attempt and no wait, also when the model call fails with a message
  that the decorator would retry.
\<close>

lemma extraction_single_attempt:
  "attempts (extract_shipment_data lib sv document_id c) = 1 \<and>
   waits (extract_shipment_data lib sv document_id c) = []"
  by (simp add: extract_run)

text \<open>
  C7. \<open>extract_shipment_data\<close> never raises: it always returns a record. Whenever its
  \<open>try\<close> block raises, the record has all eleven fields absent; so it is when the store
  query fails, when the model call fails, and when \<open>json.loads\<close> rejects the text left
  after the fence and the \<open>json\<close> tag have been stripped.
\<close>

theorem extraction_never_raises:
  "(\<exists>d. outcome (extract_shipment_data lib sv document_id c) = Inr d) \<and>
   (fst (extract_shipment_data_try lib sv document_id c) = Inl e \<longrightarrow>
      outcome (extract_shipment_data lib sv document_id c) = Inr ShipmentData_default) \<and>
   (chroma_similarity_search sv (searches_made c)
        ''shipment carrier consignee shipper pickup delivery rate'' 5 = Inl e \<longrightarrow>
      outcome (extract_shipment_data lib sv document_id c) = Inr ShipmentData_default) \<and>
   (chroma_similarity_search sv (searches_made c)
        ''shipment carrier consignee shipper pickup delivery rate'' 5 = Inr results \<and>
    llm_invoke sv (llm_calls c)
        (create_extraction_prompt (join ''\<newline>\<newline>'' (map page_content results))) = Inl e \<longrightarrow>
      outcome (extract_shipment_data lib sv document_id c) = Inr ShipmentData_default) \<and>
   (chroma_similarity_search sv (searches_made c)
        ''shipment carrier consignee shipper pickup delivery rate'' 5 = Inr results \<and>
    llm_invoke sv (llm_calls c)
        (create_extraction_prompt (join ''\<newline>\<newline>'' (map page_content results))) = Inr response \<and>
    json_text (strip response) = Inr payload \<and> json_loads lib payload = Inl e \<longrightarrow>
      outcome (extract_shipment_data lib sv document_id c) = Inr ShipmentData_default) \<and>
   list_all (\<lambda>name. getattr ShipmentData_default name = None) field_names"
proof (intro conjI impI)
  show "\<exists>d. outcome (extract_shipment_data lib sv document_id c) = Inr d"
    by (simp add: extract_run)
next
  assume "fst (extract_shipment_data_try lib sv document_id c) = Inl e"
  then show "outcome (extract_shipment_data lib sv document_id c) = Inr ShipmentData_default"
    by (simp add: extract_run)
next
  assume "chroma_similarity_search sv (searches_made c)
        ''shipment carrier consignee shipper pickup delivery rate'' 5 = Inl e"
  then show "outcome (extract_shipment_data lib sv document_id c) = Inr ShipmentData_default"
    by (simp add: extract_run try_shape)
next
  assume "chroma_similarity_search sv (searches_made c)
        ''shipment carrier consignee shipper pickup delivery rate'' 5 = Inr results \<and>
    llm_invoke sv (llm_calls c)
        (create_extraction_prompt (join ''\<newline>\<newline>'' (map page_content results))) = Inl e"
  then show "outcome (extract_shipment_data lib sv document_id c) = Inr ShipmentData_default"
    by (simp add: extract_run try_shape)
next
  assume "chroma_similarity_search sv (searches_made c)
        ''shipment carrier consignee shipper pickup delivery rate'' 5 = Inr results \<and>
    llm_invoke sv (llm_calls c)
        (create_extraction_prompt (join ''\<newline>\<newline>'' (map page_content results))) = Inr response \<and>
    json_text (strip response) = Inr payload \<and> json_loads lib payload = Inl e"
  then show "outcome (extract_shipment_data lib sv document_id c) = Inr ShipmentData_default"
    by (simp add: extract_run try_shape init_empty)
next
  show "list_all (\<lambda>name. getattr ShipmentData_default name = None) field_names"
    by (simp add: field_names_def getattr_def ShipmentData_default_def)
qed

theorem extraction_never_raises_witness:
  "json_text (strip prose) = Inr prose \<and>
   cls (projl (json_loads example_library prose)) = JSONDecodeError \<and>
   fst (extract_shipment_data_try example_library (store_down refused) ''doc-1'' no_calls)
      = Inl refused \<and>
   outcome (extract_shipment_data example_library (store_with three_chunks (Inr prose))
      ''doc-1'' no_calls) = Inr ShipmentData_default \<and>
   outcome (extract_shipment_data example_library (store_down refused) ''doc-1'' no_calls)
      = Inr ShipmentData_default \<and>
   outcome (extract_shipment_data example_library (store_with three_chunks (Inl too_many))
      ''doc-1'' no_calls) = Inr ShipmentData_default"
proof -
  let ?q = "''shipment carrier consignee shipper pickup delivery rate''"
  let ?p = "create_extraction_prompt (join ''\<newline>\<newline>'' (map page_content (map fst three_chunks)))"
  let ?e = "\<lparr>cls = JSONDecodeError, msg = ''Expecting value: line 1 column 1 (char 0)''\<rparr>"
  have s1: "chroma_similarity_search (store_with three_chunks (Inr prose))
      (searches_made no_calls) ?q 5 = Inr (map fst three_chunks)" by code_simp
  have l1: "llm_invoke (store_with three_chunks (Inr prose)) (llm_calls no_calls) ?p = Inr prose"
    by code_simp
  have j1: "json_text (strip prose) = Inr prose" by code_simp
  have p1: "json_loads example_library prose = Inl ?e" by code_simp
  have a: "outcome (extract_shipment_data example_library (store_with three_chunks (Inr prose))
      ''doc-1'' no_calls) = Inr ShipmentData_default"
    using extraction_never_raises [where lib = example_library
        and sv = "store_with three_chunks (Inr prose)" and c = no_calls
        and results = "map fst three_chunks" and response = prose and payload = prose
        and e = ?e and document_id = "''doc-1''"]
      s1 l1 j1 p1 by blast
  have s2: "chroma_similarity_search (store_down refused) (searches_made no_calls) ?q 5
      = Inl refused" by code_simp
  have b: "outcome (extract_shipment_data example_library (store_down refused) ''doc-1'' no_calls)
      = Inr ShipmentData_default"
    using extraction_never_raises [where lib = example_library
        and sv = "store_down refused" and c = no_calls and e = refused
        and document_id = "''doc-1''"] s2 by blast
  have s3: "chroma_similarity_search (store_with three_chunks (Inl too_many))
      (searches_made no_calls) ?q 5 = Inr (map fst three_chunks)" by code_simp
  have l3: "llm_invoke (store_with three_chunks (Inl too_many)) (llm_calls no_calls) ?p
      = Inl too_many" by code_simp
  have c: "outcome (extract_shipment_data example_library (store_with three_chunks (Inl too_many))
      ''doc-1'' no_calls) = Inr ShipmentData_default"
    using extraction_never_raises [where lib = example_library
        and sv = "store_with three_chunks (Inl too_many)" and c = no_calls
        and results = "map fst three_chunks" and e = too_many and document_id = "''doc-1''"]
      s3 l3 by blast
  have k: "cls (projl (json_loads example_library prose)) = JSONDecodeError"
    using p1 by simp
  have t: "fst (extract_shipment_data_try example_library (store_down refused) ''doc-1'' no_calls)
      = Inl refused" by code_simp
  from j1 k t a b c show ?thesis by blast
qed

text \<open>
  C8. Round trip. When the model's response, after the stripping of the source, is a JSON
  text whose value is an object that gives each of the eleven schema fields a string,
  \<open>extract_shipment_data\<close> returns a record whose eleven fields are exactly those
  strings, unchanged. (Keys that name no field are ignored, so the object may hold more.)
\<close>

theorem extraction_round_trip:
  assumes search: "chroma_similarity_search sv (searches_made c)
        ''shipment carrier consignee shipper pickup delivery rate'' 5 = Inr results"
    and reply: "llm_invoke sv (llm_calls c)
        (create_extraction_prompt (join ''\<newline>\<newline>'' (map page_content results))) = Inr response"
    and payload: "json_text (strip response) = Inr payload"
    and parsed: "json_loads lib payload = Inr (JObject kwargs)"
    and fields: "list_all (\<lambda>name. map_of kwargs name = Some (JString (val name))) field_names"
  shows "outcome (extract_shipment_data lib sv document_id c) =
     Inr \<lparr>shipment_id = Some (val ''shipment_id''), shipper = Some (val ''shipper''),
          consignee = Some (val ''consignee''),
          pickup_datetime = Some (val ''pickup_datetime''),
          delivery_datetime = Some (val ''delivery_datetime''),
          equipment_type = Some (val ''equipment_type''), mode = Some (val ''mode''),
          rate = Some (val ''rate''), currency = Some (val ''currency''),
          weight = Some (val ''weight''), carrier_name = Some (val ''carrier_name'')\<rparr>"
proof -
  have v: "\<And>name. name \<in> set field_names \<Longrightarrow> validate_field lib kwargs name = Some (Some (val name))"
    using fields by (simp add: validate_field_def list_all_iff)
  have "ShipmentData_init lib (JObject kwargs) =
     Inr \<lparr>shipment_id = Some (val ''shipment_id''), shipper = Some (val ''shipper''),
          consignee = Some (val ''consignee''),
          pickup_datetime = Some (val ''pickup_datetime''),
          delivery_datetime = Some (val ''delivery_datetime''),
          equipment_type = Some (val ''equipment_type''), mode = Some (val ''mode''),
          rate = Some (val ''rate''), currency = Some (val ''currency''),
          weight = Some (val ''weight''), carrier_name = Some (val ''carrier_name'')\<rparr>"
    using v by (simp add: ShipmentData_init_def list_all_iff field_names_def)
  then show ?thesis
    using search reply payload parsed by (simp add: extract_run try_shape)
qed

theorem extraction_round_trip_witness:
  "json_text (strip json_object) = Inr json_object \<and>
   outcome (extract_shipment_data example_library (store_with three_chunks (Inr json_object))
      ''doc-1'' no_calls) =
     Inr \<lparr>shipment_id = Some ''SH-1001'', shipper = Some ''Acme Corp'',
          consignee = Some ''Globex LLC'', pickup_datetime = Some ''2024-03-01 08:00'',
          delivery_datetime = Some ''03/03/2024 5pm'', equipment_type = Some ''53' Dry Van'',
          mode = Some ''FTL'', rate = Some ''1,200.00'', currency = Some ''USD'',
          weight = Some ''42000 lbs'', carrier_name = Some ''ACME Freight''\<rparr>"
proof -
  let ?sv = "store_with three_chunks (Inr json_object)"
  let ?kwargs = "[(''shipment_id'', JString ''SH-1001''), (''shipper'', JString ''Acme Corp''),
          (''consignee'', JString ''Globex LLC''),
          (''pickup_datetime'', JString ''2024-03-01 08:00''),
          (''delivery_datetime'', JString ''03/03/2024 5pm''),
          (''equipment_type'', JString ''53' Dry Van''), (''mode'', JString ''FTL''),
          (''rate'', JString ''1,200.00''), (''currency'', JString ''USD''),
          (''weight'', JString ''42000 lbs''), (''carrier_name'', JString ''ACME Freight'')]"
  let ?val = "\<lambda>name. case map_of ?kwargs name of Some (JString v) \<Rightarrow> v | _ \<Rightarrow> []"
  have search: "chroma_similarity_search ?sv (searches_made no_calls)
      ''shipment carrier consignee shipper pickup delivery rate'' 5 = Inr (map fst three_chunks)"
    by code_simp
  have reply: "llm_invoke ?sv (llm_calls no_calls)
      (create_extraction_prompt (join ''\<newline>\<newline>'' (map page_content (map fst three_chunks))))
      = Inr json_object" by code_simp
  have payload: "json_text (strip json_object) = Inr json_object" by code_simp
  have parsed: "json_loads example_library json_object = Inr (JObject ?kwargs)" by code_simp
  have strings: "list_all (\<lambda>name. map_of ?kwargs name = Some (JString (?val name))) field_names"
    by code_simp
  show ?thesis
    using extraction_round_trip [OF search reply payload parsed strings, of "''doc-1''"] payload
    by simp
qed

section \<open>Fields of an extracted record\<close>






end
